theory Spec2Isabelle
  imports Main "HOL-Library.AList" "HOL-Library.Monad_Syntax"
begin

section \<open>JavaScript values\<close>

text \<open>
  The module under study (\<^verbatim>\<open>src/unnamed/part_000\<close>, the advanced-search constants of the
  UI) is configuration written as object literals, most of them built with the spread
  operator, plus one asynchronous adapter. The model keeps the literals as they are
  written: a value is a \<open>jsval\<close>, an object is the association list of its own
  properties in insertion order, and an object literal is the list of its entries.

  The enums \<^verbatim>\<open>SearchIndex\<close> and \<^verbatim>\<open>SuggestionField\<close> are declared in
  \<^verbatim>\<open>enums/search.enum\<close> and \<^verbatim>\<open>enums/AdvancedSearch.enum\<close>, which are not among the
  sources. The datatypes below list the members this module names; \<open>UNLISTED\<close> stands for
  any further value of the index type.
\<close>

datatype SearchIndex =
  TABLE | TOPIC | DASHBOARD | PIPELINE | MLMODEL | USER | TEAM | TAG | GLOSSARY
  | UNLISTED nat

datatype SuggestionField = ROOT | COLUMN | DATABASE | SCHEMA | SERVICE

text \<open>The first parameter of \<^verbatim>\<open>autocomplete\<close> has type \<^verbatim>\<open>SearchIndex | SearchIndex[]\<close>.\<close>

datatype index_arg = Single SearchIndex | Many "SearchIndex list"

text \<open>
  Function values are kept symbolic. \<open>AsyncFetch si sf\<close> is the closure that
  \<^verbatim>\<open>autocomplete(si, sf)\<close> returns (its behaviour is \<open>autocomplete\<close> below),
  \<open>RenderAdvanceSearchButtons\<close> is the function imported from
  \<^verbatim>\<open>utils/AdvancedSearchUtils\<close>, and \<open>Foreign\<close> is any function of the query-builder
  library's own configuration.
\<close>

datatype fn =
  AsyncFetch index_arg "SuggestionField option"
  | RenderAdvanceSearchButtons
  | Foreign nat

datatype jsval =
  JUndefined
  | JNull
  | JBool bool
  | JNum int
  | JStr string
  | JArr "jsval list"
  | JFun fn
  | JObj "(string \<times> jsval) list"

type_synonym jsobj = "(string \<times> jsval) list"

text \<open>Decimal text of an array index, the property key of an array element.\<close>

function showNat :: "nat \<Rightarrow> string" where
  "showNat n =
     (if n < 10 then [char_of (48 + n)]
      else showNat (n div 10) @ [char_of (48 + n mod 10)])"
  by pat_completeness auto
termination
  by (relation "measure id") auto

text \<open>
  The own enumerable properties of a value, which is what \<^verbatim>\<open>{...v}\<close> copies:
  nothing for \<^verbatim>\<open>undefined\<close>, \<^verbatim>\<open>null\<close>, booleans, numbers and functions, the
  indexed elements of an array, the indexed characters of a string.
\<close>

fun ownProps :: "jsval \<Rightarrow> jsobj" where
  "ownProps (JObj ps) = ps"
| "ownProps (JArr xs) = zip (map showNat [0..<length xs]) xs"
| "ownProps (JStr s) = zip (map showNat [0..<length s]) (map (\<lambda>c. JStr [c]) s)"
| "ownProps _ = []"

text \<open>
  An entry of an object literal is a spread \<^verbatim>\<open>...v\<close> or a property \<^verbatim>\<open>k: v\<close>.
  Entries take effect from left to right; a key that is already there keeps its place
  and takes the new value, a new key goes to the end.
\<close>

datatype entry = Spread jsval | Prop string jsval

fun addEntry :: "jsobj \<Rightarrow> entry \<Rightarrow> jsobj" where
  "addEntry ps (Prop k v) = AList.update k v ps"
| "addEntry ps (Spread src) = foldl (\<lambda>qs (k, v). AList.update k v qs) ps (ownProps src)"

definition object :: "entry list \<Rightarrow> jsval" where
  "object es = JObj (foldl addEntry [] es)"

text \<open>
  Reading \<^verbatim>\<open>v.k\<close>. On \<^verbatim>\<open>undefined\<close> and \<^verbatim>\<open>null\<close> the read throws a TypeError
  (\<open>None\<close>); on an object it gives the property or \<^verbatim>\<open>undefined\<close>. The keys this module
  reads (\<^verbatim>\<open>types\<close>, \<^verbatim>\<open>widgets\<close>, \<^verbatim>\<open>operators\<close>, \<^verbatim>\<open>settings\<close>, \<^verbatim>\<open>multiselect\<close>,
  \<^verbatim>\<open>select\<close>, \<^verbatim>\<open>text\<close>, \<^verbatim>\<open>like\<close>) are no properties of a boolean, number, string,
  array or function, so there the read gives \<^verbatim>\<open>undefined\<close>.
\<close>

fun getProp :: "jsval \<Rightarrow> string \<Rightarrow> jsval option" where
  "getProp JUndefined k = None"
| "getProp JNull k = None"
| "getProp (JObj ps) k = Some (case map_of ps k of None \<Rightarrow> JUndefined | Some v \<Rightarrow> v)"
| "getProp v k = Some JUndefined"

text \<open>A chain of reads \<^verbatim>\<open>v.k1.k2...\<close>.\<close>

fun getPath :: "jsval \<Rightarrow> string list \<Rightarrow> jsval option" where
  "getPath v [] = Some v"
| "getPath v (k # ks) = (case getProp v k of None \<Rightarrow> None | Some w \<Rightarrow> getPath w ks)"

text \<open>The operator \<^verbatim>\<open>a ?? b\<close>: \<open>b\<close> when \<open>a\<close> is \<^verbatim>\<open>undefined\<close> or \<^verbatim>\<open>null\<close>, else \<open>a\<close>.\<close>

definition nullish :: "jsval \<Rightarrow> jsval \<Rightarrow> jsval" where
  "nullish a b = (if a = JUndefined \<or> a = JNull then b else a)"


section \<open>The initial filter tree\<close>

text \<open>
  \<^verbatim>\<open>emptyJsonTree\<close> calls \<^verbatim>\<open>QbUtils.uuid()\<close> three times while the literal is
  evaluated: for the \<^verbatim>\<open>id\<close> of the root, then for the computed key of the entry of the
  outer \<^verbatim>\<open>children1\<close>, then (inside that entry's value) for the computed key of the
  entry of the inner \<^verbatim>\<open>children1\<close>. The generator belongs to the library; \<open>uuid n\<close> is
  the string its \<open>n\<close>-th call returns.
\<close>

definition emptyJsonTree :: "(nat \<Rightarrow> string) \<Rightarrow> jsval" where
  "emptyJsonTree uuid =
     JObj [
       (''id'', JStr (uuid 0)),
       (''type'', JStr ''group''),
       (''properties'', JObj [(''conjunction'', JStr ''AND''), (''not'', JBool False)]),
       (''children1'', JObj [
         (uuid 1, JObj [
           (''type'', JStr ''group''),
           (''properties'', JObj [(''conjunction'', JStr ''AND''), (''not'', JBool False)]),
           (''children1'', JObj [
             (uuid 2, JObj [
               (''type'', JStr ''rule''),
               (''properties'', JObj [
                 (''field'', JNull),
                 (''operator'', JNull),
                 (''value'', JArr []),
                 (''valueSrc'', JArr [])])])])])])]"


section \<open>The autocomplete adapter\<close>

text \<open>
  The argument of \<^verbatim>\<open>suggestQuery\<close>, an object with the keys \<^verbatim>\<open>query\<close>,
  \<^verbatim>\<open>searchIndex\<close>, \<^verbatim>\<open>field\<close> and \<^verbatim>\<open>fetchSource\<close>.
\<close>

record suggest_request =
  rq_query :: jsval
  rq_searchIndex :: index_arg
  rq_field :: "SuggestionField option"
  rq_fetchSource :: bool

text \<open>
  The service answers with an array of option objects. An object has an identity, its
  address, and lodash's \<^verbatim>\<open>uniq\<close> compares array elements with SameValueZero, which on
  objects is identity; so an element of the response is kept as its address together
  with the \<^verbatim>\<open>text\<close> property that the adapter reads.
\<close>

datatype suggest_option = SuggestOption (address: nat) (text_of: string)

text \<open>
  lodash \<^verbatim>\<open>uniq\<close>: walk the array from the left and keep an element unless an equal one
  (here: the same object) has been kept already.
\<close>

fun uniq_from :: "suggest_option list \<Rightarrow> suggest_option list \<Rightarrow> suggest_option list" where
  "uniq_from seen [] = seen"
| "uniq_from seen (x # xs) =
     uniq_from (if address x \<in> address ` set seen then seen else seen @ [x]) xs"

definition uniq :: "suggest_option list \<Rightarrow> suggest_option list" where
  "uniq xs = uniq_from [] xs"

text \<open>
  A promise is modelled by how it settles: \<open>Inl\<close> rejected with a reason, \<open>Inr\<close>
  fulfilled with a value. \<^verbatim>\<open>p.then(f)\<close> passes a rejection on and maps a fulfilment.
\<close>

definition then_promise :: "'e + 'a \<Rightarrow> ('a \<Rightarrow> 'b) \<Rightarrow> 'e + 'b" where
  "then_promise p f = (case p of Inl e \<Rightarrow> Inl e | Inr a \<Rightarrow> Inr (f a))"

text \<open>
  \<^verbatim>\<open>autocomplete\<close> in three parts: the request object handed to \<^verbatim>\<open>suggestQuery\<close>,
  the callback given to \<^verbatim>\<open>then\<close>, and the function itself. The suggestion service
  \<^verbatim>\<open>suggestQuery\<close> (from \<^verbatim>\<open>axiosAPIs/searchAPI\<close>, not among the sources) is a parameter.
\<close>

definition autocomplete_request ::
  "index_arg \<Rightarrow> SuggestionField option \<Rightarrow> jsval \<Rightarrow> suggest_request" where
  "autocomplete_request searchIndex suggestField search =
     \<lparr> rq_query = nullish search (JStr ''*''),
       rq_searchIndex = searchIndex,
       rq_field = suggestField,
       rq_fetchSource = False \<rparr>"

definition autocomplete_then :: "suggest_option list \<Rightarrow> jsval" where
  "autocomplete_then resp =
     JObj [
       (''values'', JArr (map (\<lambda>opt. JObj [(''value'', JStr (text_of opt)),
                                            (''title'', JStr (text_of opt))]) (uniq resp))),
       (''hasMore'', JBool False)]"

definition autocomplete ::
  "(suggest_request \<Rightarrow> 'e + suggest_option list) \<Rightarrow>
   index_arg \<Rightarrow> SuggestionField option \<Rightarrow> jsval \<Rightarrow> 'e + jsval" where
  "autocomplete suggestQuery searchIndex suggestField search =
     then_promise (suggestQuery (autocomplete_request searchIndex suggestField search))
       autocomplete_then"


section \<open>The field registry\<close>

text \<open>
  \<open>t\<close> is the translation function \<^verbatim>\<open>i18next.t\<close>; the labels it returns are whatever
  the loaded locale says.
\<close>

definition mainWidgetProps :: "(string \<Rightarrow> string) \<Rightarrow> jsval" where
  "mainWidgetProps t =
     JObj [(''fullWidth'', JBool True), (''valueLabel'', JStr (t ''label.criteria'' @ '':''))]"

definition commonQueryBuilderFields :: "(string \<Rightarrow> string) \<Rightarrow> jsval" where
  "commonQueryBuilderFields t =
     JObj [
       (''deleted'', JObj [
         (''label'', JStr ''Deleted''),
         (''type'', JStr ''boolean''),
         (''defaultValue'', JBool True)]),
       (''owner'', JObj [
         (''label'', JStr ''Owner''),
         (''type'', JStr ''!struct''),
         (''subfields'', JObj [
           (''name'', JObj [
             (''label'', JStr ''username''),
             (''type'', JStr ''select''),
             (''mainWidgetProps'', mainWidgetProps t),
             (''fieldSettings'', JObj [
               (''asyncFetch'', JFun (AsyncFetch (Many [USER, TEAM]) None))])]),
           (''displayName'', JObj [
             (''label'', JStr ''name''),
             (''type'', JStr ''text''),
             (''mainWidgetProps'', mainWidgetProps t)]),
           (''type'', JObj [
             (''label'', JStr ''type''),
             (''type'', JStr ''select''),
             (''mainWidgetProps'', mainWidgetProps t),
             (''fieldSettings'', JObj [
               (''listValues'', JArr [
                 JObj [(''value'', JStr ''user''), (''title'', JStr ''User'')],
                 JObj [(''value'', JStr ''team''), (''title'', JStr ''Team'')]])])])])]),
       (''tags.tagFQN'', JObj [
         (''label'', JStr ''Tags''),
         (''type'', JStr ''select''),
         (''mainWidgetProps'', mainWidgetProps t),
         (''fieldSettings'', JObj [
           (''asyncFetch'', JFun (AsyncFetch (Many [TAG, GLOSSARY]) None))])]),
       (''tier.tagFQN'', JObj [
         (''label'', JStr ''Tier''),
         (''type'', JStr ''select''),
         (''mainWidgetProps'', mainWidgetProps t),
         (''fieldSettings'', JObj [
           (''asyncFetch'', JFun (AsyncFetch (Many [TAG, GLOSSARY]) None))])])]"

definition serviceQueryBuilderFields :: "(string \<Rightarrow> string) \<Rightarrow> jsval" where
  "serviceQueryBuilderFields t =
     JObj [
       (''service'', JObj [
         (''label'', JStr ''Service''),
         (''type'', JStr ''!struct''),
         (''subfields'', JObj [
           (''name'', JObj [
             (''label'', JStr ''name''),
             (''type'', JStr ''select''),
             (''mainWidgetProps'', mainWidgetProps t),
             (''fieldSettings'', JObj [
               (''asyncFetch'', JFun (AsyncFetch (Single TABLE) (Some SERVICE)))])]),
           (''deleted'', JObj [
             (''label'', JStr ''deleted''),
             (''type'', JStr ''boolean''),
             (''defaultValue'', JBool True)])])])]"

definition tableQueryBuilderFields :: "(string \<Rightarrow> string) \<Rightarrow> jsval" where
  "tableQueryBuilderFields t =
     JObj [
       (''database'', JObj [
         (''label'', JStr ''Database''),
         (''type'', JStr ''!struct''),
         (''subfields'', JObj [
           (''name'', JObj [
             (''label'', JStr ''name''),
             (''type'', JStr ''select''),
             (''mainWidgetProps'', mainWidgetProps t),
             (''fieldSettings'', JObj [
               (''asyncFetch'', JFun (AsyncFetch (Single TABLE) (Some DATABASE)))])]),
           (''deleted'', JObj [
             (''label'', JStr ''deleted''),
             (''type'', JStr ''boolean''),
             (''defaultValue'', JBool True)])])]),
       (''databaseSchema'', JObj [
         (''label'', JStr ''Database Schema''),
         (''type'', JStr ''!struct''),
         (''subfields'', JObj [
           (''name'', JObj [
             (''label'', JStr ''name''),
             (''type'', JStr ''select''),
             (''mainWidgetProps'', mainWidgetProps t),
             (''fieldSettings'', JObj [
               (''asyncFetch'', JFun (AsyncFetch (Single TABLE) (Some SCHEMA)))])]),
           (''deleted'', JObj [
             (''label'', JStr ''deleted''),
             (''type'', JStr ''boolean''),
             (''defaultValue'', JBool True)])])]),
       (''name'', JObj [
         (''label'', JStr ''Table''),
         (''type'', JStr ''select''),
         (''mainWidgetProps'', mainWidgetProps t),
         (''fieldSettings'', JObj [
           (''asyncFetch'', JFun (AsyncFetch (Single TABLE) (Some ROOT)))])]),
       (''columns'', JObj [
         (''label'', JStr ''Column''),
         (''type'', JStr ''!struct''),
         (''subfields'', JObj [
           (''name'', JObj [
             (''label'', JStr ''name''),
             (''type'', JStr ''select''),
             (''mainWidgetProps'', mainWidgetProps t),
             (''fieldSettings'', JObj [
               (''asyncFetch'', JFun (AsyncFetch (Single TABLE) (Some COLUMN)))])]),
           (''dataType'', JObj [
             (''label'', JStr ''data type''),
             (''type'', JStr ''text''),
             (''mainWidgetProps'', mainWidgetProps t)]),
           (''constraint'', JObj [
             (''label'', JStr ''constraint''),
             (''type'', JStr ''text''),
             (''mainWidgetProps'', mainWidgetProps t)])])])]"


section \<open>The configuration\<close>

text \<open>
  \<^verbatim>\<open>initialConfigWithoutFields\<close> is computed once, when the module is loaded, from the
  library's configuration \<^verbatim>\<open>BaseConfig\<close> (the import \<^verbatim>\<open>AntdConfig\<close>), which is a
  parameter here. The literal reads \<^verbatim>\<open>BaseConfig.types.multiselect.widgets\<close> and its like;
  such a read throws when the value read from is missing, and then the module does not
  load (\<open>None\<close>). The reads are the only thing that can fail, so they are written first,
  in the order of the source, and the literal after them.
\<close>

definition initialConfigWithoutFields :: "(string \<Rightarrow> string) \<Rightarrow> jsval \<Rightarrow> jsval option" where
  "initialConfigWithoutFields t BaseConfig = do {
     types \<leftarrow> getProp BaseConfig ''types'';
     types_multiselect \<leftarrow> getProp types ''multiselect'';
     types_multiselect_widgets \<leftarrow> getProp types_multiselect ''widgets'';
     types_select \<leftarrow> getProp types ''select'';
     types_select_widgets \<leftarrow> getProp types_select ''widgets'';
     types_text \<leftarrow> getProp types ''text'';
     widgets \<leftarrow> getProp BaseConfig ''widgets'';
     widgets_multiselect \<leftarrow> getProp widgets ''multiselect'';
     widgets_select \<leftarrow> getProp widgets ''select'';
     widgets_text \<leftarrow> getProp widgets ''text'';
     operators \<leftarrow> getProp BaseConfig ''operators'';
     operators_like \<leftarrow> getProp operators ''like'';
     settings \<leftarrow> getProp BaseConfig ''settings'';
     Some (object [
       Spread BaseConfig,
       Prop ''types'' (object [
         Spread types,
         Prop ''multiselect'' (object [
           Spread types_multiselect,
           Prop ''widgets'' (object [
             Spread types_multiselect_widgets,
             Prop ''text'' (JObj [(''operators'', JArr [JStr ''like'', JStr ''not_like''])])]),
           Prop ''excludeOperators'' (JArr [JStr ''is_null'', JStr ''is_not_null'']),
           Prop ''valueSources'' (JArr [JStr ''value''])]),
         Prop ''select'' (object [
           Spread types_select,
           Prop ''widgets'' (object [
             Spread types_select_widgets,
             Prop ''text'' (JObj [(''operators'', JArr [JStr ''like'', JStr ''not_like''])])]),
           Prop ''excludeOperators'' (JArr [JStr ''is_null'', JStr ''is_not_null'']),
           Prop ''valueSources'' (JArr [JStr ''value''])]),
         Prop ''text'' (object [
           Spread types_text,
           Prop ''valueSources'' (JArr [JStr ''value''])])]),
       Prop ''widgets'' (object [
         Spread widgets,
         Prop ''multiselect'' (object [
           Spread widgets_multiselect,
           Prop ''showSearch'' (JBool True),
           Prop ''showCheckboxes'' (JBool True),
           Prop ''useAsyncSearch'' (JBool True),
           Prop ''useLoadMore'' (JBool False)]),
         Prop ''select'' (object [
           Spread widgets_select,
           Prop ''showSearch'' (JBool True),
           Prop ''showCheckboxes'' (JBool True),
           Prop ''useAsyncSearch'' (JBool True),
           Prop ''useLoadMore'' (JBool False)]),
         Prop ''text'' (object [
           Spread widgets_text])]),
       Prop ''operators'' (object [
         Spread operators,
         Prop ''like'' (object [
           Spread operators_like,
           Prop ''elasticSearchQueryType'' (JStr ''wildcard'')])]),
       Prop ''settings'' (object [
         Spread settings,
         Prop ''showLabels'' (JBool True),
         Prop ''canReorder'' (JBool False),
         Prop ''renderSize'' (JStr ''medium''),
         Prop ''fieldLabel'' (JStr (t ''label.field-plural'' @ '':'')),
         Prop ''operatorLabel'' (JStr (t ''label.condition'' @ '':'')),
         Prop ''showNot'' (JBool False),
         Prop ''valueLabel'' (JStr (t ''label.criteria'' @ '':'')),
         Prop ''renderButton'' (JFun RenderAdvanceSearchButtons)])])
   }"

text \<open>
  \<^verbatim>\<open>getQbConfigs\<close> closes over the module's constants. Its parameter \<open>config0\<close> is the
  value of \<^verbatim>\<open>initialConfigWithoutFields\<close> that loading the module produced; the function
  itself reads no property and cannot throw.
\<close>

definition getQbConfigs :: "(string \<Rightarrow> string) \<Rightarrow> jsval \<Rightarrow> SearchIndex \<Rightarrow> jsval" where
  "getQbConfigs t config0 searchIndex =
     (case searchIndex of
        MLMODEL \<Rightarrow>
          object [
            Spread config0,
            Prop ''fields'' (object [
              Spread (commonQueryBuilderFields t),
              Spread (serviceQueryBuilderFields t)])]
      | PIPELINE \<Rightarrow>
          object [
            Spread config0,
            Prop ''fields'' (object [
              Spread (commonQueryBuilderFields t),
              Spread (serviceQueryBuilderFields t)])]
      | DASHBOARD \<Rightarrow>
          object [
            Spread config0,
            Prop ''fields'' (object [
              Spread (commonQueryBuilderFields t),
              Spread (serviceQueryBuilderFields t)])]
      | TABLE \<Rightarrow>
          object [
            Spread config0,
            Prop ''fields'' (object [
              Spread (commonQueryBuilderFields t),
              Spread (serviceQueryBuilderFields t),
              Spread (tableQueryBuilderFields t)])]
      | TOPIC \<Rightarrow>
          object [
            Spread config0,
            Prop ''fields'' (object [
              Spread (commonQueryBuilderFields t),
              Spread (serviceQueryBuilderFields t)])]
      | _ \<Rightarrow>
          object [
            Spread config0,
            Prop ''fields'' (object [
              Spread (commonQueryBuilderFields t)])])"


section \<open>Reading fields and trees\<close>

text \<open>
  The object stored under the property \<open>k\<close> of \<open>v\<close>, as the list of its entries; no
  entries when \<open>v\<close> has no such property or the property is no object.
\<close>

fun propObj :: "string \<Rightarrow> jsval \<Rightarrow> jsobj" where
  "propObj k (JObj ps) = (case map_of ps k of Some (JObj s) \<Rightarrow> s | _ \<Rightarrow> [])"
| "propObj k v = []"

text \<open>
  Both nested structures of the module descend through one property: a field
  descriptor holds its subfields under \<^verbatim>\<open>subfields\<close>, a tree node holds its children under
  \<^verbatim>\<open>children1\<close>. \<open>reach via ps\<close> lists every entry of \<open>ps\<close> and, below it, the entries
  reached through \<open>via\<close>, each with the keys that lead to it.
\<close>

function reach :: "string \<Rightarrow> jsobj \<Rightarrow> (string list \<times> jsval) list" where
  "reach via [] = []"
| "reach via ((k, d) # kvs) =
     ([k], d) # map (\<lambda>(p, e). (k # p, e)) (reach via (propObj via d)) @ reach via kvs"
  by pat_completeness auto
termination
proof (relation "measure (\<lambda>(via, ps). size_list (size_prod (\<lambda>_. 0) size) ps)")
  show "wf (measure (\<lambda>(via :: string, ps :: jsobj). size_list (size_prod (\<lambda>_. 0) size) ps))"
    by simp
next
  fix via k :: string and d :: jsval and kvs :: jsobj
  have look: "size v \<le> size_list (size_prod (\<lambda>_. 0) size) ps"
    if "map_of ps n = Some v" for ps :: jsobj and n v
    using that by (induction ps) (auto split: if_splits)
  have "size_list (size_prod (\<lambda>_. 0) size) (propObj via d) \<le> size d"
  proof (cases d)
    case (JObj ps)
    show ?thesis
    proof (cases "map_of ps via")
      case None
      with JObj show ?thesis by simp
    next
      case (Some v)
      from look [OF Some] JObj Some show ?thesis by (cases v) auto
    qed
  qed auto
  then show "((via, propObj via d), (via, (k, d) # kvs))
      \<in> measure (\<lambda>(via, ps). size_list (size_prod (\<lambda>_. 0) size) ps)"
    by simp
next
  fix via k :: string and d :: jsval and kvs :: jsobj
  show "((via, kvs), (via, (k, d) # kvs))
      \<in> measure (\<lambda>(via, ps). size_list (size_prod (\<lambda>_. 0) size) ps)"
    by simp
qed

text \<open>The keys of a path joined by dots: \<^verbatim>\<open>owner\<close>, \<^verbatim>\<open>name\<close> is \<^verbatim>\<open>owner.name\<close>.\<close>

fun dotted :: "string list \<Rightarrow> string" where
  "dotted [] = []"
| "dotted [k] = k"
| "dotted (k # ks) = k @ ''.'' @ dotted ks"

text \<open>
  The field descriptors of a configuration by dotted path: the entries of its
  \<^verbatim>\<open>fields\<close> and, for each, the entries of its \<^verbatim>\<open>subfields\<close>.
\<close>

definition fieldPaths :: "jsval \<Rightarrow> (string \<times> jsval) list" where
  "fieldPaths config =
     map (\<lambda>(p, d). (dotted p, d)) (reach ''subfields'' (propObj ''fields'' config))"

text \<open>
  The invariant of a descriptor: with type \<^verbatim>\<open>!struct\<close> it has a \<^verbatim>\<open>subfields\<close> object
  with at least one entry, with any other type it has no \<^verbatim>\<open>subfields\<close> property.
  \<open>descriptorsOk\<close> asks it of every descriptor of a field mapping, at any depth.
\<close>

definition descriptorOk :: "jsval \<Rightarrow> bool" where
  "descriptorOk d =
     (if getProp d ''type'' = Some (JStr ''!struct'')
      then propObj ''subfields'' d \<noteq> []
      else map_of (ownProps d) ''subfields'' = None)"

definition descriptorsOk :: "jsval \<Rightarrow> bool" where
  "descriptorsOk mapping = list_all descriptorOk (map snd (reach ''subfields'' (ownProps mapping)))"

text \<open>
  A node of the filter tree: its type, its children, and the identifiers of the tree.
  The root holds its identifier in \<^verbatim>\<open>id\<close>; a node below the root is identified by the
  key under which its parent's \<^verbatim>\<open>children1\<close> holds it, the last key of its path.
\<close>

definition nodeType :: "jsval \<Rightarrow> jsval option" where
  "nodeType node = getProp node ''type''"

definition childNodes :: "jsval \<Rightarrow> jsval list" where
  "childNodes node = map snd (propObj ''children1'' node)"

definition descendants :: "jsval \<Rightarrow> (string list \<times> jsval) list" where
  "descendants node = reach ''children1'' (propObj ''children1'' node)"

definition nodeIds :: "jsval \<Rightarrow> string list" where
  "nodeIds tree =
     (case getProp tree ''id'' of Some (JStr i) \<Rightarrow> [i] | _ \<Rightarrow> [])
     @ map (\<lambda>(p, n). last p) (descendants tree)"


section \<open>Object literals\<close>

text \<open>
  Facts about literals that the theorems below share. A key that is not yet there is
  appended; spreading entries with distinct keys onto an object whose keys are
  different appends them in order; whatever an object literal builds has distinct keys,
  so spreading it copies it.
\<close>

lemma update_fresh:
  "k \<notin> fst ` set qs \<Longrightarrow> AList.update k v qs = qs @ [(k, v)]"
  by (induction qs) auto

lemma spread_distinct:
  "distinct (map fst (qs @ ps)) \<Longrightarrow>
   foldl (\<lambda>qs (k, v). AList.update k v qs) qs ps = qs @ ps"
proof (induction ps arbitrary: qs)
  case Nil
  then show ?case by simp
next
  case (Cons p ps)
  obtain k v where p: "p = (k, v)" by (cases p)
  from Cons.prems p have fresh: "k \<notin> fst ` set qs" by auto
  from Cons.prems p have "distinct (map fst ((qs @ [(k, v)]) @ ps))" by auto
  from Cons.IH [OF this] show ?case by (simp add: p update_fresh [OF fresh])
qed

lemma addEntry_distinct:
  assumes "distinct (map fst ps)"
  shows "distinct (map fst (addEntry ps e))"
proof (cases e)
  case (Spread src)
  have "distinct (map fst qs) \<Longrightarrow>
        distinct (map fst (foldl (\<lambda>qs (k, v). AList.update k v qs) qs rs))"
    for qs rs :: jsobj
    by (induction rs arbitrary: qs) (auto simp: distinct_update)
  with assms Spread show ?thesis by simp
next
  case (Prop k v)
  with assms show ?thesis by (simp add: distinct_update)
qed

lemma object_distinct:
  "distinct (map fst ps) \<Longrightarrow> distinct (map fst (foldl addEntry ps es))"
  by (induction es arbitrary: ps) (auto simp: addEntry_distinct simp del: addEntry.simps)

lemma spread_object: "addEntry [] (Spread (object es)) = foldl addEntry [] es"
  using spread_distinct [of "[]" "foldl addEntry [] es"] object_distinct [of "[]" es]
  by (simp add: object_def)

lemma map_of_Prop: "map_of (addEntry ps (Prop k v)) = (map_of ps)(k \<mapsto> v)"
  by (simp add: update_conv')

lemma common_copy: "object [Spread (commonQueryBuilderFields t)] = commonQueryBuilderFields t"
  by (simp add: object_def commonQueryBuilderFields_def)

lemma fields_service:
  "object [Spread (commonQueryBuilderFields t), Spread (serviceQueryBuilderFields t)] =
   JObj (ownProps (commonQueryBuilderFields t) @ ownProps (serviceQueryBuilderFields t))"
  by (simp add: object_def commonQueryBuilderFields_def serviceQueryBuilderFields_def)

lemma fields_table:
  "object [Spread (commonQueryBuilderFields t), Spread (serviceQueryBuilderFields t),
           Spread (tableQueryBuilderFields t)] =
   JObj (ownProps (commonQueryBuilderFields t) @ ownProps (serviceQueryBuilderFields t)
         @ ownProps (tableQueryBuilderFields t))"
  by (simp add: object_def commonQueryBuilderFields_def serviceQueryBuilderFields_def
      tableQueryBuilderFields_def)

lemma config_fields: "getProp (object [Spread c, Prop ''fields'' f]) ''fields'' = Some f"
  by (simp add: object_def update_conv')

lemma config_fields_obj: "propObj ''fields'' (object [Spread c, Prop ''fields'' (JObj fs)]) = fs"
  by (simp add: object_def update_conv')

text \<open>The \<^verbatim>\<open>fields\<close> of each configuration, as the entries of the registries.\<close>

lemma default_fields:
  assumes "searchIndex \<notin> {MLMODEL, PIPELINE, DASHBOARD, TABLE, TOPIC}"
  shows "propObj ''fields'' (getQbConfigs t config0 searchIndex) =
         ownProps (commonQueryBuilderFields t)"
proof -
  have "propObj ''fields'' (object [Spread config0, Prop ''fields'' (commonQueryBuilderFields t)]) =
        ownProps (commonQueryBuilderFields t)"
    by (simp add: object_def update_conv' commonQueryBuilderFields_def)
  with assms show ?thesis
    by (cases searchIndex) (simp_all only: getQbConfigs_def SearchIndex.case common_copy, simp_all)
qed

lemma service_fields:
  "searchIndex \<in> {MLMODEL, PIPELINE, DASHBOARD, TOPIC} \<Longrightarrow>
   propObj ''fields'' (getQbConfigs t config0 searchIndex) =
   ownProps (commonQueryBuilderFields t) @ ownProps (serviceQueryBuilderFields t)"
  by (auto simp only: getQbConfigs_def SearchIndex.case fields_service config_fields_obj)

lemma table_fields:
  "propObj ''fields'' (getQbConfigs t config0 TABLE) =
   ownProps (commonQueryBuilderFields t) @ ownProps (serviceQueryBuilderFields t)
   @ ownProps (tableQueryBuilderFields t)"
  by (simp only: getQbConfigs_def SearchIndex.case fields_table config_fields_obj)

lemma common_keys:
  "map fst (ownProps (commonQueryBuilderFields t)) =
   [''deleted'', ''owner'', ''tags.tagFQN'', ''tier.tagFQN'']"
  by (simp add: commonQueryBuilderFields_def)

lemma service_keys: "map fst (ownProps (serviceQueryBuilderFields t)) = [''service'']"
  by (simp add: serviceQueryBuilderFields_def)

lemma table_keys:
  "map fst (ownProps (tableQueryBuilderFields t)) =
   [''database'', ''databaseSchema'', ''name'', ''columns'']"
  by (simp add: tableQueryBuilderFields_def)


section \<open>The configuration builder\<close>

text \<open>
  Claim C1. For an index that is none of MLMODEL, PIPELINE, DASHBOARD, TABLE and TOPIC,
  \<^verbatim>\<open>getQbConfigs\<close> takes the default branch of its switch: it returns (the model is a
  total function, nothing in the body can throw) the configuration
  \<^verbatim>\<open>initialConfigWithoutFields\<close> with \<^verbatim>\<open>fields\<close> set to a copy of the common field
  mapping, and that copy equals the common field mapping.
\<close>

theorem getQbConfigs_unrecognized:
  assumes "searchIndex \<notin> {MLMODEL, PIPELINE, DASHBOARD, TABLE, TOPIC}"
  shows "getQbConfigs t config0 searchIndex =
           object [Spread config0, Prop ''fields'' (commonQueryBuilderFields t)]
         \<and> getProp (getQbConfigs t config0 searchIndex) ''fields'' =
           Some (commonQueryBuilderFields t)"
  using assms
  by (cases searchIndex) (simp_all add: getQbConfigs_def common_copy config_fields)

theorem getQbConfigs_unrecognized_witness:
  "USER \<notin> {MLMODEL, PIPELINE, DASHBOARD, TABLE, TOPIC}
   \<and> getQbConfigs (\<lambda>key. key) (JObj [(''settings'', JObj [])]) USER =
       object [Spread (JObj [(''settings'', JObj [])]),
               Prop ''fields'' (commonQueryBuilderFields (\<lambda>key. key))]
   \<and> getProp (getQbConfigs (\<lambda>key. key) (JObj [(''settings'', JObj [])]) USER) ''fields'' =
       Some (commonQueryBuilderFields (\<lambda>key. key))"
proof -
  have index: "USER \<notin> {MLMODEL, PIPELINE, DASHBOARD, TABLE, TOPIC}"
    by simp
  from index getQbConfigs_unrecognized [OF index, of "\<lambda>key. key" "JObj [(''settings'', JObj [])]"]
  show ?thesis by blast
qed

text \<open>
  Claim C2. For each of the five supported indexes, the \<^verbatim>\<open>fields\<close> of the
  configuration extend the common field mapping: the keys of the common mapping are
  \<^verbatim>\<open>deleted\<close>, \<^verbatim>\<open>owner\<close>, \<^verbatim>\<open>tags.tagFQN\<close> and \<^verbatim>\<open>tier.tagFQN\<close>, and each of them is
  a key of \<^verbatim>\<open>fields\<close> with the descriptor that the common mapping gives it.
\<close>

theorem getQbConfigs_fields_superset:
  assumes "searchIndex \<in> {MLMODEL, PIPELINE, DASHBOARD, TABLE, TOPIC}"
  shows "map fst (ownProps (commonQueryBuilderFields t)) =
           [''deleted'', ''owner'', ''tags.tagFQN'', ''tier.tagFQN'']
         \<and> map_of (ownProps (commonQueryBuilderFields t))
             \<subseteq>\<^sub>m map_of (propObj ''fields'' (getQbConfigs t config0 searchIndex))"
proof
  show "map fst (ownProps (commonQueryBuilderFields t)) =
          [''deleted'', ''owner'', ''tags.tagFQN'', ''tier.tagFQN'']"
    by (rule common_keys)
next
  let ?common = "ownProps (commonQueryBuilderFields t)"
  have common_dom: "dom (map_of ?common) = {''deleted'', ''owner'', ''tags.tagFQN'', ''tier.tagFQN''}"
  proof -
    have "dom (map_of ?common) = set (map fst ?common)"
      by (simp add: dom_map_of_conv_image_fst)
    then show ?thesis by (simp only: common_keys) simp
  qed
  have disjoint: "dom (map_of ?common) \<inter> dom (map_of rest) = {}"
    if "set (map fst rest) \<subseteq> {''service'', ''database'', ''databaseSchema'', ''name'', ''columns''}"
    for rest :: jsobj
  proof -
    from that have "dom (map_of rest) \<subseteq> {''service'', ''database'', ''databaseSchema'', ''name'', ''columns''}"
      by (simp add: dom_map_of_conv_image_fst)
    then show ?thesis unfolding common_dom by auto
  qed
  have le: "map_of ?common \<subseteq>\<^sub>m map_of (?common @ rest)"
    if "set (map fst rest) \<subseteq> {''service'', ''database'', ''databaseSchema'', ''name'', ''columns''}"
    for rest :: jsobj
    using map_add_comm [OF disjoint [OF that]] map_le_map_add [of "map_of rest" "map_of ?common"]
    by simp
  from assms consider "searchIndex = TABLE" | "searchIndex \<in> {MLMODEL, PIPELINE, DASHBOARD, TOPIC}"
    by auto
  then show "map_of ?common
      \<subseteq>\<^sub>m map_of (propObj ''fields'' (getQbConfigs t config0 searchIndex))"
  proof cases
    case 1
    have "set (map fst (ownProps (serviceQueryBuilderFields t) @ ownProps (tableQueryBuilderFields t)))
          \<subseteq> {''service'', ''database'', ''databaseSchema'', ''name'', ''columns''}"
      by (simp add: service_keys table_keys)
    from le [OF this] show ?thesis by (simp add: 1 table_fields)
  next
    case 2
    have "set (map fst (ownProps (serviceQueryBuilderFields t)))
          \<subseteq> {''service'', ''database'', ''databaseSchema'', ''name'', ''columns''}"
      by (simp add: service_keys)
    from le [OF this] show ?thesis by (simp add: service_fields [OF 2])
  qed
qed

theorem getQbConfigs_fields_superset_witness:
  "TABLE \<in> {MLMODEL, PIPELINE, DASHBOARD, TABLE, TOPIC}
   \<and> map fst (ownProps (commonQueryBuilderFields (\<lambda>key. key))) =
       [''deleted'', ''owner'', ''tags.tagFQN'', ''tier.tagFQN'']
   \<and> map_of (ownProps (commonQueryBuilderFields (\<lambda>key. key)))
       \<subseteq>\<^sub>m map_of (propObj ''fields'' (getQbConfigs (\<lambda>key. key) (JObj []) TABLE))"
proof -
  have index: "TABLE \<in> {MLMODEL, PIPELINE, DASHBOARD, TABLE, TOPIC}"
    by simp
  from index getQbConfigs_fields_superset [OF index, of "\<lambda>key. key" "JObj []"]
  show ?thesis by blast
qed

text \<open>
  Claim C10. The configurations for MLMODEL, PIPELINE, DASHBOARD and TOPIC are equal:
  each is the base configuration with \<^verbatim>\<open>fields\<close> set to the common fields followed by
  the service fields.
\<close>

theorem getQbConfigs_service_backed_equal:
  "getQbConfigs t config0 MLMODEL = getQbConfigs t config0 PIPELINE
   \<and> getQbConfigs t config0 PIPELINE = getQbConfigs t config0 DASHBOARD
   \<and> getQbConfigs t config0 DASHBOARD = getQbConfigs t config0 TOPIC
   \<and> getQbConfigs t config0 TOPIC =
       object [Spread config0,
               Prop ''fields'' (JObj (ownProps (commonQueryBuilderFields t)
                                      @ ownProps (serviceQueryBuilderFields t)))]"
  by (simp only: getQbConfigs_def SearchIndex.case fields_service)


section \<open>Paths of a configuration\<close>

lemma reach_append: "reach via (ps @ qs) = reach via ps @ reach via qs"
  by (induction via ps rule: reach.induct) simp_all

lemma table_getPath:
  "getPath (getQbConfigs t config0 TABLE) (''fields'' # ks) =
   getPath (JObj (ownProps (commonQueryBuilderFields t) @ ownProps (serviceQueryBuilderFields t)
                  @ ownProps (tableQueryBuilderFields t))) ks"
  by (simp only: getQbConfigs_def SearchIndex.case fields_table getPath.simps config_fields
      option.case)

lemma table_paths:
  "map fst (fieldPaths (getQbConfigs t config0 TABLE)) =
   [''deleted'', ''owner'', ''owner.name'', ''owner.displayName'', ''owner.type'',
    ''tags.tagFQN'', ''tier.tagFQN'', ''service'', ''service.name'', ''service.deleted'',
    ''database'', ''database.name'', ''database.deleted'', ''databaseSchema'',
    ''databaseSchema.name'', ''databaseSchema.deleted'', ''name'', ''columns'',
    ''columns.name'', ''columns.dataType'', ''columns.constraint'']"
  unfolding fieldPaths_def table_fields
  by (simp add: commonQueryBuilderFields_def serviceQueryBuilderFields_def
      tableQueryBuilderFields_def)

lemma dashboard_paths:
  "map fst (fieldPaths (getQbConfigs t config0 DASHBOARD)) =
   [''deleted'', ''owner'', ''owner.name'', ''owner.displayName'', ''owner.type'',
    ''tags.tagFQN'', ''tier.tagFQN'', ''service'', ''service.name'', ''service.deleted'']"
  unfolding fieldPaths_def
  by (simp add: service_fields commonQueryBuilderFields_def serviceQueryBuilderFields_def)

text \<open>
  Claim C6. The configuration for TABLE has a descriptor for each of the paths
  \<^verbatim>\<open>database.name\<close>, \<^verbatim>\<open>databaseSchema.name\<close>, \<^verbatim>\<open>name\<close>, \<^verbatim>\<open>columns.name\<close>,
  \<^verbatim>\<open>columns.dataType\<close>, \<^verbatim>\<open>columns.constraint\<close>, the common paths \<^verbatim>\<open>deleted\<close>,
  \<^verbatim>\<open>owner.name\<close>, \<^verbatim>\<open>owner.displayName\<close>, \<^verbatim>\<open>owner.type\<close>, \<^verbatim>\<open>tags.tagFQN\<close>,
  \<^verbatim>\<open>tier.tagFQN\<close>, and the service paths \<^verbatim>\<open>service.name\<close>, \<^verbatim>\<open>service.deleted\<close>.
  The descriptor of \<^verbatim>\<open>owner.name\<close> is the entry \<^verbatim>\<open>name\<close> of the \<^verbatim>\<open>subfields\<close> of the
  field \<^verbatim>\<open>owner\<close>, and so for every path below a struct field; \<^verbatim>\<open>tags.tagFQN\<close>,
  \<^verbatim>\<open>tier.tagFQN\<close>, \<^verbatim>\<open>deleted\<close> and \<^verbatim>\<open>name\<close> are keys of \<^verbatim>\<open>fields\<close> themselves.
\<close>

theorem getQbConfigs_table_paths:
  "set [''database.name'', ''databaseSchema.name'', ''name'', ''columns.name'',
        ''columns.dataType'', ''columns.constraint'', ''deleted'', ''owner.name'',
        ''owner.displayName'', ''owner.type'', ''tags.tagFQN'', ''tier.tagFQN'',
        ''service.name'', ''service.deleted'']
     \<subseteq> set (map fst (fieldPaths (getQbConfigs t config0 TABLE)))
   \<and> map (map_of (fieldPaths (getQbConfigs t config0 TABLE)))
       [''database.name'', ''databaseSchema.name'', ''name'', ''columns.name'',
        ''columns.dataType'', ''columns.constraint'', ''deleted'', ''owner.name'',
        ''owner.displayName'', ''owner.type'', ''tags.tagFQN'', ''tier.tagFQN'',
        ''service.name'', ''service.deleted'']
     = map (getPath (getQbConfigs t config0 TABLE))
       [[''fields'', ''database'', ''subfields'', ''name''],
        [''fields'', ''databaseSchema'', ''subfields'', ''name''],
        [''fields'', ''name''],
        [''fields'', ''columns'', ''subfields'', ''name''],
        [''fields'', ''columns'', ''subfields'', ''dataType''],
        [''fields'', ''columns'', ''subfields'', ''constraint''],
        [''fields'', ''deleted''],
        [''fields'', ''owner'', ''subfields'', ''name''],
        [''fields'', ''owner'', ''subfields'', ''displayName''],
        [''fields'', ''owner'', ''subfields'', ''type''],
        [''fields'', ''tags.tagFQN''],
        [''fields'', ''tier.tagFQN''],
        [''fields'', ''service'', ''subfields'', ''name''],
        [''fields'', ''service'', ''subfields'', ''deleted'']]"
proof
  show "set [''database.name'', ''databaseSchema.name'', ''name'', ''columns.name'',
        ''columns.dataType'', ''columns.constraint'', ''deleted'', ''owner.name'',
        ''owner.displayName'', ''owner.type'', ''tags.tagFQN'', ''tier.tagFQN'',
        ''service.name'', ''service.deleted'']
     \<subseteq> set (map fst (fieldPaths (getQbConfigs t config0 TABLE)))"
    unfolding table_paths by simp
next
  show "map (map_of (fieldPaths (getQbConfigs t config0 TABLE)))
       [''database.name'', ''databaseSchema.name'', ''name'', ''columns.name'',
        ''columns.dataType'', ''columns.constraint'', ''deleted'', ''owner.name'',
        ''owner.displayName'', ''owner.type'', ''tags.tagFQN'', ''tier.tagFQN'',
        ''service.name'', ''service.deleted'']
     = map (getPath (getQbConfigs t config0 TABLE))
       [[''fields'', ''database'', ''subfields'', ''name''],
        [''fields'', ''databaseSchema'', ''subfields'', ''name''],
        [''fields'', ''name''],
        [''fields'', ''columns'', ''subfields'', ''name''],
        [''fields'', ''columns'', ''subfields'', ''dataType''],
        [''fields'', ''columns'', ''subfields'', ''constraint''],
        [''fields'', ''deleted''],
        [''fields'', ''owner'', ''subfields'', ''name''],
        [''fields'', ''owner'', ''subfields'', ''displayName''],
        [''fields'', ''owner'', ''subfields'', ''type''],
        [''fields'', ''tags.tagFQN''],
        [''fields'', ''tier.tagFQN''],
        [''fields'', ''service'', ''subfields'', ''name''],
        [''fields'', ''service'', ''subfields'', ''deleted'']]"
    unfolding fieldPaths_def table_fields list.map table_getPath
    by (simp add: commonQueryBuilderFields_def serviceQueryBuilderFields_def
        tableQueryBuilderFields_def)
qed

text \<open>
  Claim C7. The configuration for DASHBOARD has the common paths and the service paths
  and none of the paths of the table fields, which are \<^verbatim>\<open>database\<close>,
  \<^verbatim>\<open>databaseSchema\<close>, \<^verbatim>\<open>name\<close>, \<^verbatim>\<open>columns\<close> and the paths below them.
\<close>

theorem getQbConfigs_dashboard_paths:
  "set [''deleted'', ''owner.name'', ''owner.displayName'', ''owner.type'', ''tags.tagFQN'',
        ''tier.tagFQN'', ''service.name'', ''service.deleted'']
     \<subseteq> set (map fst (fieldPaths (getQbConfigs t config0 DASHBOARD)))
   \<and> map (\<lambda>(p, d). dotted p) (reach ''subfields'' (ownProps (tableQueryBuilderFields t))) =
       [''database'', ''database.name'', ''database.deleted'', ''databaseSchema'',
        ''databaseSchema.name'', ''databaseSchema.deleted'', ''name'', ''columns'',
        ''columns.name'', ''columns.dataType'', ''columns.constraint'']
   \<and> set [''database'', ''database.name'', ''database.deleted'', ''databaseSchema'',
          ''databaseSchema.name'', ''databaseSchema.deleted'', ''name'', ''columns'',
          ''columns.name'', ''columns.dataType'', ''columns.constraint'']
       \<inter> set (map fst (fieldPaths (getQbConfigs t config0 DASHBOARD))) = {}"
proof (intro conjI)
  show "set [''deleted'', ''owner.name'', ''owner.displayName'', ''owner.type'', ''tags.tagFQN'',
        ''tier.tagFQN'', ''service.name'', ''service.deleted'']
     \<subseteq> set (map fst (fieldPaths (getQbConfigs t config0 DASHBOARD)))"
    unfolding dashboard_paths by simp
next
  show "map (\<lambda>(p, d). dotted p) (reach ''subfields'' (ownProps (tableQueryBuilderFields t))) =
       [''database'', ''database.name'', ''database.deleted'', ''databaseSchema'',
        ''databaseSchema.name'', ''databaseSchema.deleted'', ''name'', ''columns'',
        ''columns.name'', ''columns.dataType'', ''columns.constraint'']"
    by (simp add: tableQueryBuilderFields_def)
next
  show "set [''database'', ''database.name'', ''database.deleted'', ''databaseSchema'',
          ''databaseSchema.name'', ''databaseSchema.deleted'', ''name'', ''columns'',
          ''columns.name'', ''columns.dataType'', ''columns.constraint'']
       \<inter> set (map fst (fieldPaths (getQbConfigs t config0 DASHBOARD))) = {}"
    unfolding dashboard_paths by simp
qed


section \<open>The invariant of the descriptors\<close>

lemma descriptorsOk_append:
  "descriptorsOk (JObj (ps @ qs)) \<longleftrightarrow> descriptorsOk (JObj ps) \<and> descriptorsOk (JObj qs)"
  by (simp add: descriptorsOk_def reach_append)

lemma common_ok: "descriptorsOk (commonQueryBuilderFields t)"
  by (simp add: descriptorsOk_def descriptorOk_def commonQueryBuilderFields_def)

lemma service_ok: "descriptorsOk (serviceQueryBuilderFields t)"
  by (simp add: descriptorsOk_def descriptorOk_def serviceQueryBuilderFields_def)

lemma table_ok: "descriptorsOk (tableQueryBuilderFields t)"
  by (simp add: descriptorsOk_def descriptorOk_def tableQueryBuilderFields_def)

lemma descriptorsOk_ownProps: "descriptorsOk (JObj (ownProps v)) = descriptorsOk v"
  by (simp add: descriptorsOk_def)

text \<open>The invariant does exclude something: a struct without subfields, a leaf with them.\<close>

lemma descriptorOk_rejects:
  "\<not> descriptorOk (JObj [(''label'', JStr ''Owner''), (''type'', JStr ''!struct'')])"
  "\<not> descriptorOk (JObj [(''type'', JStr ''!struct''), (''subfields'', JObj [])])"
  "\<not> descriptorOk (JObj [(''type'', JStr ''text''), (''subfields'', JObj [])])"
  by (simp_all add: descriptorOk_def)

text \<open>
  Claim C8. In the common, the service and the table field mapping, and in the
  \<^verbatim>\<open>fields\<close> of the configuration for any index, every descriptor (at any depth) of type
  \<^verbatim>\<open>!struct\<close> has a non-empty \<^verbatim>\<open>subfields\<close> mapping and every descriptor of another
  type has no \<^verbatim>\<open>subfields\<close>.
\<close>

theorem descriptors_struct_invariant:
  "descriptorsOk (commonQueryBuilderFields t)
   \<and> descriptorsOk (serviceQueryBuilderFields t)
   \<and> descriptorsOk (tableQueryBuilderFields t)
   \<and> descriptorsOk (JObj (propObj ''fields'' (getQbConfigs t config0 searchIndex)))"
proof (intro conjI)
  show "descriptorsOk (commonQueryBuilderFields t)" by (rule common_ok)
  show "descriptorsOk (serviceQueryBuilderFields t)" by (rule service_ok)
  show "descriptorsOk (tableQueryBuilderFields t)" by (rule table_ok)
  consider "searchIndex = TABLE" | "searchIndex \<in> {MLMODEL, PIPELINE, DASHBOARD, TOPIC}"
    | "searchIndex \<notin> {MLMODEL, PIPELINE, DASHBOARD, TABLE, TOPIC}"
    by auto
  then show "descriptorsOk (JObj (propObj ''fields'' (getQbConfigs t config0 searchIndex)))"
  proof cases
    case 1
    then show ?thesis
      by (simp only: table_fields descriptorsOk_append descriptorsOk_ownProps
          common_ok service_ok table_ok simp_thms)
  next
    case 2
    then show ?thesis
      by (simp only: service_fields [OF 2] descriptorsOk_append descriptorsOk_ownProps
          common_ok service_ok simp_thms)
  next
    case 3
    then show ?thesis
      by (simp only: default_fields [OF 3] descriptorsOk_ownProps common_ok)
  qed
qed


section \<open>The autocomplete adapter\<close>

text \<open>What \<^verbatim>\<open>uniq\<close> keeps: elements of the array, one for each object in it, in order.\<close>

lemma uniq_from_set:
  "set (uniq_from seen xs) \<subseteq> set seen \<union> set xs"
proof (induction xs arbitrary: seen)
  case Nil
  then show ?case by simp
next
  case (Cons x xs)
  from Cons.IH [of "if address x \<in> address ` set seen then seen else seen @ [x]"]
  show ?case by (auto split: if_splits)
qed

lemma uniq_from_addresses:
  "address ` set (uniq_from seen xs) = address ` set seen \<union> address ` set xs"
  by (induction xs arbitrary: seen) auto

lemma uniq_from_distinct:
  "distinct (map address seen) \<Longrightarrow> distinct (map address (uniq_from seen xs))"
  by (induction xs arbitrary: seen) auto

lemma uniq_subset: "set (uniq resp) \<subseteq> set resp"
  using uniq_from_set [of "[]" resp] by (simp add: uniq_def)

lemma uniq_addresses: "address ` set (uniq resp) = address ` set resp"
  by (simp add: uniq_def uniq_from_addresses)

lemma uniq_distinct: "distinct (map address (uniq resp))"
  by (simp add: uniq_def uniq_from_distinct)

text \<open>A response of pairwise different objects, as a parsed reply is, is kept whole.\<close>

lemma uniq_from_distinct_objects:
  "distinct (map address (seen @ xs)) \<Longrightarrow> uniq_from seen xs = seen @ xs"
  by (induction xs arbitrary: seen) auto

lemma uniq_distinct_objects: "distinct (map address resp) \<Longrightarrow> uniq resp = resp"
  using uniq_from_distinct_objects [of "[]" resp] by (simp add: uniq_def)

text \<open>
  The part of claim C3 that the code keeps: each pair has the title equal to the value,
  both the \<^verbatim>\<open>text\<close> of an element of the response; there is one pair for each object
  of the response; and \<^verbatim>\<open>hasMore\<close> is false.
\<close>

lemma autocomplete_then_pairs:
  "getProp (autocomplete_then resp) ''values'' =
     Some (JArr (map (\<lambda>opt. JObj [(''value'', JStr (text_of opt)), (''title'', JStr (text_of opt))])
                  (uniq resp)))
   \<and> getProp (autocomplete_then resp) ''hasMore'' = Some (JBool False)
   \<and> set (uniq resp) \<subseteq> set resp
   \<and> distinct (map address (uniq resp))
   \<and> address ` set (uniq resp) = address ` set resp"
  by (simp add: autocomplete_then_def uniq_subset uniq_distinct uniq_addresses)

text \<open>
  Claim C3. The claim asks for one pair for each distinct \<^verbatim>\<open>text\<close> of the response.
  The adapter calls \<^verbatim>\<open>uniq\<close> on the array of option objects, before it reads their
  \<^verbatim>\<open>text\<close>, so what is removed is a repeated object, not a repeated text: for a
  response of three objects with the texts alpha, alpha, beta, the adapter returns
  three pairs, alpha twice.
\<close>

theorem autocomplete_repeats_equal_texts:
  "autocomplete
     (\<lambda>request. Inr [SuggestOption 0 ''alpha'', SuggestOption 1 ''alpha'', SuggestOption 2 ''beta''])
     (Single TABLE) (Some DATABASE) (JStr ''a'')
   = (Inr (JObj [
        (''values'', JArr [
          JObj [(''value'', JStr ''alpha''), (''title'', JStr ''alpha'')],
          JObj [(''value'', JStr ''alpha''), (''title'', JStr ''alpha'')],
          JObj [(''value'', JStr ''beta''), (''title'', JStr ''beta'')]]),
        (''hasMore'', JBool False)]) :: unit + jsval)"
  by (simp add: autocomplete_def then_promise_def autocomplete_then_def uniq_def)

text \<open>
  Claim C4, as stated, fails for the empty string: \<^verbatim>\<open>??\<close> replaces \<^verbatim>\<open>undefined\<close> and
  \<^verbatim>\<open>null\<close> only, and the empty string is dispatched as it is.
\<close>

theorem autocomplete_empty_string_not_wildcard:
  "rq_query (autocomplete_request (Single TABLE) (Some DATABASE) (JStr '''')) \<noteq> JStr ''*''"
  by (simp add: autocomplete_request_def nullish_def)

text \<open>
  Claim C4, amended. The function produced by the adapter hands to the suggestion
  service one request, the one built from its argument. For an undefined or null query
  text that request carries the query \<^verbatim>\<open>*\<close>; any other query text, the empty string
  included, is the query of the request unchanged. The other parts of the request are
  the index and suggestion field the adapter was made with, and \<^verbatim>\<open>fetchSource\<close> false.
\<close>

theorem autocomplete_wildcard_for_nullish:
  "autocomplete suggestQuery searchIndex suggestField search =
     then_promise (suggestQuery (autocomplete_request searchIndex suggestField search))
       autocomplete_then
   \<and> autocomplete_request searchIndex suggestField search =
     \<lparr> rq_query = (if search = JUndefined \<or> search = JNull then JStr ''*'' else search),
       rq_searchIndex = searchIndex,
       rq_field = suggestField,
       rq_fetchSource = False \<rparr>"
  by (simp add: autocomplete_def autocomplete_request_def nullish_def)


section \<open>The initial filter tree\<close>

text \<open>
  Claim C9, as stated, fails: the tree is not one group that holds one rule. The only
  child of the root group is again a group, and the rule is the child of that one; so
  the tree has two group nodes. The generator here returns 0, 1, 2 as decimal text.
\<close>

theorem emptyJsonTree_root_child_is_group:
  "map nodeType (childNodes (emptyJsonTree showNat)) \<noteq> [Some (JStr ''rule'')]
   \<and> nodeType (emptyJsonTree showNat) # map nodeType (map snd (descendants (emptyJsonTree showNat)))
       \<noteq> [Some (JStr ''group''), Some (JStr ''rule'')]"
  by (simp add: emptyJsonTree_def childNodes_def nodeType_def descendants_def)

text \<open>
  Claim C9, amended. The tree is a root group whose only child is a group whose only
  child is an empty rule: a rule with \<^verbatim>\<open>field\<close> and \<^verbatim>\<open>operator\<close> null and with
  \<^verbatim>\<open>value\<close> and \<^verbatim>\<open>valueSrc\<close> empty lists. Every node has an identifier that
  \<^verbatim>\<open>QbUtils.uuid()\<close> generated, each from a call of its own: the root the first one, in
  \<^verbatim>\<open>id\<close>; the inner group the second and the rule the third, as the key under which
  the parent holds it. So the identifiers are pairwise distinct when the three results
  of the generator are.
\<close>

theorem emptyJsonTree_shape:
  "nodeType (emptyJsonTree uuid) = Some (JStr ''group'')
   \<and> getProp (emptyJsonTree uuid) ''id'' = Some (JStr (uuid 0))
   \<and> map (\<lambda>(p, n). (p, nodeType n)) (descendants (emptyJsonTree uuid)) =
       [([uuid 1], Some (JStr ''group'')), ([uuid 1, uuid 2], Some (JStr ''rule''))]
   \<and> map_of (descendants (emptyJsonTree uuid)) [uuid 1, uuid 2] =
       Some (JObj [
         (''type'', JStr ''rule''),
         (''properties'', JObj [
           (''field'', JNull),
           (''operator'', JNull),
           (''value'', JArr []),
           (''valueSrc'', JArr [])])])
   \<and> nodeIds (emptyJsonTree uuid) = [uuid 0, uuid 1, uuid 2]
   \<and> (distinct [uuid 0, uuid 1, uuid 2] \<longrightarrow> distinct (nodeIds (emptyJsonTree uuid)))"
  by (simp add: emptyJsonTree_def nodeType_def descendants_def nodeIds_def)

theorem emptyJsonTree_shape_witness:
  "distinct [showNat 0, showNat 1, showNat 2]
   \<and> nodeIds (emptyJsonTree showNat) = [showNat 0, showNat 1, showNat 2]
   \<and> distinct (nodeIds (emptyJsonTree showNat))"
proof -
  have ids: "distinct [showNat 0, showNat 1, showNat 2]"
    by code_simp
  from ids emptyJsonTree_shape [of showNat] show ?thesis by blast
qed


section \<open>The type settings\<close>

text \<open>
  When the module loads, the configuration it builds has, for the types
  \<^verbatim>\<open>multiselect\<close> and \<^verbatim>\<open>select\<close>, the two settings that the literal writes after the
  spread of the library's settings.
\<close>

lemma loaded_types:
  assumes "initialConfigWithoutFields t BaseConfig = Some c"
  shows "getPath c [''types'', ''multiselect'', ''excludeOperators''] =
           Some (JArr [JStr ''is_null'', JStr ''is_not_null''])"
    and "getPath c [''types'', ''multiselect'', ''valueSources''] = Some (JArr [JStr ''value''])"
    and "getPath c [''types'', ''select'', ''excludeOperators''] =
           Some (JArr [JStr ''is_null'', JStr ''is_not_null''])"
    and "getPath c [''types'', ''select'', ''valueSources''] = Some (JArr [JStr ''value''])"
  using assms
  by (auto simp: initialConfigWithoutFields_def bind_eq_Some_conv object_def map_of_Prop
      simp del: addEntry.simps)

lemma loaded_object:
  assumes "initialConfigWithoutFields t BaseConfig = Some c"
  shows "\<exists>es. c = object es"
  using assms by (auto simp: initialConfigWithoutFields_def bind_eq_Some_conv)

lemma getQbConfigs_literal:
  "\<exists>f. getQbConfigs t config0 searchIndex = object [Spread config0, Prop ''fields'' f]"
  by (cases searchIndex) (simp_all only: getQbConfigs_def SearchIndex.case, blast+)

lemma config_keeps:
  assumes "k \<noteq> ''fields''"
  shows "getPath (object [Spread (object es), Prop ''fields'' f]) (k # ks) =
         getPath (object es) (k # ks)"
proof -
  have "object [Spread (object es), Prop ''fields'' f] =
        JObj (AList.update ''fields'' f (foldl addEntry [] es))"
    using spread_object [of es] by (simp add: object_def del: addEntry.simps(2))
  with assms show ?thesis by (simp add: update_conv' object_def)
qed

lemma getQbConfigs_keeps:
  assumes "initialConfigWithoutFields t BaseConfig = Some config0" and "k \<noteq> ''fields''"
  shows "getPath (getQbConfigs t config0 searchIndex) (k # ks) = getPath config0 (k # ks)"
proof -
  from loaded_object [OF assms(1)] obtain es where "config0 = object es" ..
  moreover from getQbConfigs_literal obtain f
    where "getQbConfigs t config0 searchIndex = object [Spread config0, Prop ''fields'' f]" ..
  ultimately show ?thesis using config_keeps [OF assms(2)] by simp
qed

text \<open>
  Claim C5. Whenever the module has loaded, in the configuration for each of the five
  supported indexes the settings of the types \<^verbatim>\<open>multiselect\<close> and \<^verbatim>\<open>select\<close> have
  \<^verbatim>\<open>excludeOperators\<close> equal to \<^verbatim>\<open>['is_null', 'is_not_null']\<close> and \<^verbatim>\<open>valueSources\<close> equal to
  \<^verbatim>\<open>['value']\<close>.
\<close>

theorem getQbConfigs_select_types:
  assumes "initialConfigWithoutFields t BaseConfig = Some config0"
    and "searchIndex \<in> {MLMODEL, PIPELINE, DASHBOARD, TABLE, TOPIC}"
  shows "getPath (getQbConfigs t config0 searchIndex) [''types'', ''multiselect'', ''excludeOperators'']
           = Some (JArr [JStr ''is_null'', JStr ''is_not_null''])
         \<and> getPath (getQbConfigs t config0 searchIndex) [''types'', ''multiselect'', ''valueSources'']
           = Some (JArr [JStr ''value''])
         \<and> getPath (getQbConfigs t config0 searchIndex) [''types'', ''select'', ''excludeOperators'']
           = Some (JArr [JStr ''is_null'', JStr ''is_not_null''])
         \<and> getPath (getQbConfigs t config0 searchIndex) [''types'', ''select'', ''valueSources'']
           = Some (JArr [JStr ''value''])"
proof -
  have "''types'' \<noteq> ''fields''" by simp
  note keeps = getQbConfigs_keeps [OF assms(1) this]
  show ?thesis
    by (simp only: keeps loaded_types [OF assms(1)] simp_thms)
qed

theorem getQbConfigs_select_types_witness:
  "\<exists>config0.
     initialConfigWithoutFields (\<lambda>key. key)
       (JObj [(''types'', JObj [(''multiselect'', JObj [(''valueSources'', JArr [JStr ''value'', JStr ''field''])]),
                                (''select'', JObj [])]),
              (''widgets'', JObj []),
              (''operators'', JObj [])]) = Some config0
     \<and> TABLE \<in> {MLMODEL, PIPELINE, DASHBOARD, TABLE, TOPIC}
     \<and> getPath (getQbConfigs (\<lambda>key. key) config0 TABLE) [''types'', ''multiselect'', ''excludeOperators'']
         = Some (JArr [JStr ''is_null'', JStr ''is_not_null''])
     \<and> getPath (getQbConfigs (\<lambda>key. key) config0 TABLE) [''types'', ''multiselect'', ''valueSources'']
         = Some (JArr [JStr ''value''])
     \<and> getPath (getQbConfigs (\<lambda>key. key) config0 TABLE) [''types'', ''select'', ''excludeOperators'']
         = Some (JArr [JStr ''is_null'', JStr ''is_not_null''])
     \<and> getPath (getQbConfigs (\<lambda>key. key) config0 TABLE) [''types'', ''select'', ''valueSources'']
         = Some (JArr [JStr ''value''])"
proof -
  let ?base = "JObj [(''types'', JObj [(''multiselect'', JObj [(''valueSources'', JArr [JStr ''value'', JStr ''field''])]),
                                (''select'', JObj [])]),
              (''widgets'', JObj []),
              (''operators'', JObj [])]"
  have "initialConfigWithoutFields (\<lambda>key. key) ?base \<noteq> None"
    by (simp add: initialConfigWithoutFields_def)
  then obtain config0 where loaded: "initialConfigWithoutFields (\<lambda>key. key) ?base = Some config0"
    by blast
  have index: "TABLE \<in> {MLMODEL, PIPELINE, DASHBOARD, TABLE, TOPIC}"
    by simp
  from loaded index getQbConfigs_select_types [OF loaded index] show ?thesis by blast
qed

end
